theory Spec2Isabelle
  imports Main "HOL-Library.AList" "HOL-Library.Sublist" "HOL-Library.Multiset"
begin

section \<open>Strings\<close>

text \<open>
  A Python \<open>str\<close> is a sequence of code points. A \<^typ>\<open>char\<close> stands for one code point
  below 256, so the strings of this development are the Python strings over Latin-1 (the
  pound sign of a price is one character). On these code points the character classes
  below are the ones of the interpreter: \<open>str.isspace\<close>, the class \<open>\d\<close> of \<open>re\<close> and
  \<open>str.lower\<close>.
\<close>

definition isspace :: "char \<Rightarrow> bool" where
  "isspace c = (c \<in> set [CHR 0x09, CHR 0x0A, CHR 0x0B, CHR 0x0C, CHR 0x0D,
                         CHR 0x1C, CHR 0x1D, CHR 0x1E, CHR 0x1F, CHR 0x20, CHR 0x85, CHR 0xA0])"

text \<open>\<open>s.strip()\<close>: leading and trailing whitespace removed.\<close>

definition strip :: "string \<Rightarrow> string" where
  "strip s = rev (dropWhile isspace (rev (dropWhile isspace s)))"

definition isdigit :: "char \<Rightarrow> bool" where
  "isdigit c = (48 \<le> (of_char c :: nat) \<and> (of_char c :: nat) \<le> 57)"

definition upper_letters :: string where
  "upper_letters = ''ABCDEFGHIJKLMNOPQRSTUVWXYZ'' @
     [CHR 0xC0, CHR 0xC1, CHR 0xC2, CHR 0xC3, CHR 0xC4, CHR 0xC5, CHR 0xC6, CHR 0xC7,
      CHR 0xC8, CHR 0xC9, CHR 0xCA, CHR 0xCB, CHR 0xCC, CHR 0xCD, CHR 0xCE, CHR 0xCF,
      CHR 0xD0, CHR 0xD1, CHR 0xD2, CHR 0xD3, CHR 0xD4, CHR 0xD5, CHR 0xD6,
      CHR 0xD8, CHR 0xD9, CHR 0xDA, CHR 0xDB, CHR 0xDC, CHR 0xDD, CHR 0xDE]"

definition lower_letters :: string where
  "lower_letters = ''abcdefghijklmnopqrstuvwxyz'' @
     [CHR 0xE0, CHR 0xE1, CHR 0xE2, CHR 0xE3, CHR 0xE4, CHR 0xE5, CHR 0xE6, CHR 0xE7,
      CHR 0xE8, CHR 0xE9, CHR 0xEA, CHR 0xEB, CHR 0xEC, CHR 0xED, CHR 0xEE, CHR 0xEF,
      CHR 0xF0, CHR 0xF1, CHR 0xF2, CHR 0xF3, CHR 0xF4, CHR 0xF5, CHR 0xF6,
      CHR 0xF8, CHR 0xF9, CHR 0xFA, CHR 0xFB, CHR 0xFC, CHR 0xFD, CHR 0xFE]"

definition lower_char :: "char \<Rightarrow> char" where
  "lower_char c = (case map_of (zip upper_letters lower_letters) c of None \<Rightarrow> c | Some l \<Rightarrow> l)"

text \<open>\<open>s.lower()\<close>.\<close>

definition lower :: "string \<Rightarrow> string" where
  "lower s = map lower_char s"

text \<open>\<open>' '.join(xs)\<close>.\<close>

fun join_space :: "string list \<Rightarrow> string" where
  "join_space [] = []"
| "join_space [x] = x"
| "join_space (x # y # ys) = x @ '' '' @ join_space (y # ys)"

text \<open>\<open>xs.index(x)\<close> for an \<open>x\<close> that occurs in \<open>xs\<close>: the position of its first occurrence.\<close>

fun index :: "'a list \<Rightarrow> 'a \<Rightarrow> nat" where
  "index [] x = 0"
| "index (y # ys) x = (if y = x then 0 else Suc (index ys x))"

section \<open>Exceptions and values\<close>

datatype error = ConnectionError | HTTPError | ValueError | KeyError | IndexError

text \<open>
  The values a record holds. \<open>PyFloat s\<close> is the float that \<open>float(s)\<close> returns for the
  decimal literal \<open>s\<close>; the rounding to a double is not modelled. A \<open>dict\<close> keeps its keys in
  insertion order and an assignment to a key that is present keeps the key's position:
  an association list under \<^const>\<open>AList.update\<close>.
\<close>

datatype pyval = PyStr string | PyInt int | PyFloat string | PyDict "(string \<times> pyval) list"

type_synonym dict = "(string \<times> pyval) list"

text \<open>
  \<open>int(s)\<close> for a non-empty string of digits. (The interpreter's configurable limit on
  the number of digits of such a string, 4300 by default, is not modelled.)
\<close>

definition py_int :: "string \<Rightarrow> int" where
  "py_int s = foldl (\<lambda>a c. 10 * a + (of_char c - 48)) 0 s"

text \<open>
  \<open>float(s)\<close> for a string \<open>s\<close> of digits and decimal points, the only strings it is
  applied to here: it is a float literal when it has exactly one point and a digit
  (\<open>1.5\<close>, \<open>1.\<close>, \<open>.5\<close>), and \<open>ValueError\<close> is raised otherwise (\<open>.\<close>, \<open>1.2.3\<close>).
\<close>

definition py_float :: "string \<Rightarrow> error + pyval" where
  "py_float s = (if length (filter (\<lambda>c. c = CHR ''.'') s) = 1 \<and> (\<exists>c \<in> set s. isdigit c)
                 then Inr (PyFloat s) else Inl ValueError)"

section \<open>Regular expressions\<close>

text \<open>
  \<open>re.search(p, s)\<close> for a pattern \<open>p\<close> that is a literal followed or preceded by \<open>.*\<close>
  finds a match exactly when the literal occurs in \<open>s\<close>.
\<close>

fun contains :: "string \<Rightarrow> string \<Rightarrow> bool" where
  "contains lit [] = (lit = [])"
| "contains lit (c # cs) = (prefix lit (c # cs) \<or> contains lit cs)"

text \<open>\<open>_rating_pattern = re.compile('star-rating .*')\<close>, as the truth value of its search.\<close>

definition rating_pattern :: "string \<Rightarrow> bool" where
  "rating_pattern s = contains ''star-rating '' s"

text \<open>\<open>_main_data_pattern = re.compile('.* product_main')\<close>, as the truth value of its search.\<close>

definition main_data_pattern :: "string \<Rightarrow> bool" where
  "main_data_pattern s = contains '' product_main'' s"

text \<open>
  \<open>_number_pattern = re.compile('[\d.]+')\<close>: \<open>re.search\<close> returns the leftmost match, and
  the greedy \<open>+\<close> makes it the longest run of digits and points that starts there.
  The result is \<open>match.group()\<close>.
\<close>

definition number_char :: "char \<Rightarrow> bool" where
  "number_char c = (isdigit c \<or> c = CHR ''.'')"

definition number_pattern :: "string \<Rightarrow> string option" where
  "number_pattern s =
     (let rest = dropWhile (\<lambda>c. \<not> number_char c) s
      in if rest = [] then None else Some (takeWhile number_char rest))"

text \<open>
  \<open>re.compile('of (\d+)')\<close>: the leftmost place where \<open>of\<close>, a space and a digit follow one
  another; the result is \<open>match.group(1)\<close>, the longest run of digits there.
\<close>

fun of_pattern :: "string \<Rightarrow> string option" where
  "of_pattern [] = None"
| "of_pattern (c # cs) =
     (if prefix ''of '' (c # cs) \<and> takeWhile isdigit (drop 3 (c # cs)) \<noteq> []
      then Some (takeWhile isdigit (drop 3 (c # cs)))
      else of_pattern cs)"

section \<open>The document tree\<close>

text \<open>
  The tree that \<open>BeautifulSoup(text, 'html.parser')\<close> builds: a \<open>Tag\<close> has a name, its
  attributes and its children, and a child is a tag or a string. Of the attributes, the
  program reads \<open>class\<close>, which the parser stores as the list of its whitespace-separated
  tokens, and \<open>href\<close>; either may be missing. Comments and the other special strings,
  which neither \<open>find\<close> nor \<open>.text\<close> returns, are left out.
\<close>

datatype tag = Tag (name: string) (attr_class: "string list option") (attr_href: "string option")
                   (contents: "page_element list")
  and page_element = Element tag | NavigableString string

text \<open>\<open>tag.descendants\<close>: every node below the tag, in document order.\<close>

fun descendants :: "tag \<Rightarrow> page_element list"
  and descendants_of :: "page_element \<Rightarrow> page_element list" where
  "descendants (Tag n c h cs) = concat (map descendants_of cs)"
| "descendants_of (Element t) = Element t # descendants t"
| "descendants_of (NavigableString s) = [NavigableString s]"

text \<open>\<open>tag.text\<close>: the strings below the tag, concatenated.\<close>

fun get_text :: "tag \<Rightarrow> string"
  and get_text_of :: "page_element \<Rightarrow> string" where
  "get_text (Tag n c h cs) = concat (map get_text_of cs)"
| "get_text_of (Element t) = get_text t"
| "get_text_of (NavigableString s) = s"

fun elements :: "page_element list \<Rightarrow> tag list" where
  "elements [] = []"
| "elements (Element t # es) = t # elements es"
| "elements (NavigableString s # es) = elements es"

text \<open>
  The \<open>class_\<close> argument of \<open>find\<close>: a string or a compiled pattern, of which the library
  uses the truth value of \<open>pattern.search\<close>.
\<close>

datatype class_name = Str string | Pattern "string \<Rightarrow> bool"

fun truthy :: "class_name \<Rightarrow> bool" where
  "truthy (Str s) = (s \<noteq> [])"
| "truthy (Pattern p) = True"

text \<open>
  How the library compares the \<open>class\<close> attribute of a tag with the \<open>class_\<close> argument:
  \<^item> \<open>class_=None\<close> matches exactly the tags that have no \<open>class\<close> attribute;
  \<^item> a tag without the attribute matches no other argument but the empty string;
  \<^item> otherwise some token of the attribute matches, or the tokens joined by single
    spaces do.
\<close>

fun matches_value :: "class_name \<Rightarrow> string \<Rightarrow> bool" where
  "matches_value (Str s) markup = (markup = s)"
| "matches_value (Pattern p) markup = p markup"

fun matches_class :: "class_name option \<Rightarrow> string list option \<Rightarrow> bool" where
  "matches_class None attr = (attr = None)"
| "matches_class (Some m) None = (\<not> truthy m)"
| "matches_class (Some m) (Some tokens) =
     ((\<exists>t \<in> set tokens. matches_value m t) \<or> matches_value m (join_space tokens))"

text \<open>\<open>tag.find_all(tag_name)\<close>: the descendant tags of that name, in document order.\<close>

definition find_all :: "tag \<Rightarrow> string \<Rightarrow> tag list" where
  "find_all ctxt tag_name = filter (\<lambda>t. name t = tag_name) (elements (descendants ctxt))"

text \<open>\<open>tag.find(tag_name, class_=c)\<close>: the first descendant tag of that name whose class matches.\<close>

definition find_tag :: "tag \<Rightarrow> string \<Rightarrow> class_name option \<Rightarrow> tag option" where
  "find_tag ctxt tag_name c =
     List.find (\<lambda>t. name t = tag_name \<and> matches_class c (attr_class t)) (elements (descendants ctxt))"

section \<open>The field extractor\<close>

text \<open>
  \<open>get_tag(context, tag_name, class_name='')\<close>. A caller that gives no class passes the
  empty string, and then \<open>class_=None\<close> is searched for. What \<open>find\<close> returns is a \<open>Tag\<close>
  or \<open>None\<close>, so the final type test changes nothing.
\<close>

definition get_tag :: "tag \<Rightarrow> string \<Rightarrow> class_name \<Rightarrow> tag option" where
  "get_tag ctxt tag_name class_name =
     (if truthy class_name then find_tag ctxt tag_name (Some class_name)
      else find_tag ctxt tag_name None)"

definition stars_count :: "string list" where
  "stars_count = [''zero'', ''one'', ''two'', ''three'', ''four'', ''five'']"

text \<open>
  \<open>_set_dict_value(data, key, element, data_type)\<close>. The dictionary is passed in and the
  updated dictionary is returned; \<open>Inl e\<close> is the exception \<open>e\<close>, raised before anything
  is assigned. A \<open>Tag\<close> is always true, so \<open>not element\<close> holds for \<open>None\<close> only.
  \<open>element['class']\<close> raises \<open>KeyError\<close> without the attribute, and \<open>[1]\<close> raises
  \<open>IndexError\<close> on fewer than two tokens.
\<close>

definition set_dict_value :: "dict \<Rightarrow> string \<Rightarrow> tag option \<Rightarrow> string \<Rightarrow> error + dict" where
  "set_dict_value data key element data_type =
     (case element of
        None \<Rightarrow> Inr data
      | Some el \<Rightarrow>
          if data_type \<notin> set [''text'', ''number'', ''rating''] then Inr data
          else if data_type = ''text'' then
            Inr (AList.update key (PyStr (strip (get_text el))) data)
          else if data_type = ''number'' then
            (case number_pattern (get_text el) of
               None \<Rightarrow> Inr data
             | Some m \<Rightarrow>
                 if CHR ''.'' \<in> set m
                 then (case py_float m of
                         Inl e \<Rightarrow> Inl e
                       | Inr v \<Rightarrow> Inr (AList.update key v data))
                 else Inr (AList.update key (PyInt (py_int m)) data))
          else
            (case attr_class el of
               None \<Rightarrow> Inl KeyError
             | Some cls \<Rightarrow>
                 if length cls < 2 then Inl IndexError
                 else let rating = lower (cls ! 1)
                      in if rating \<in> set stars_count
                         then Inr (AList.update key (PyInt (int (index stars_count rating))) data)
                         else Inr data))"

text \<open>
  \<open>get_rows(parent)\<close>: the loop over \<open>parent.find_all('tr')\<close>, with the dictionary \<open>rows\<close>
  as the loop state.
\<close>

fun get_rows_loop :: "tag list \<Rightarrow> dict \<Rightarrow> error + dict" where
  "get_rows_loop [] rows = Inr rows"
| "get_rows_loop (row # rest) rows =
     (let key = get_tag row ''th'' (Str []);
          val = get_tag row ''td'' (Str [])
      in case key of
           None \<Rightarrow> get_rows_loop rest rows
         | Some k \<Rightarrow>
             (case set_dict_value rows (get_text k) val ''text'' of
                Inl e \<Rightarrow> Inl e
              | Inr rows' \<Rightarrow> get_rows_loop rest rows'))"

definition get_rows :: "tag \<Rightarrow> error + dict" where
  "get_rows parent = get_rows_loop (find_all parent ''tr'') []"

section \<open>The item page parser\<close>

text \<open>
  What the program does not contain is a parameter: \<open>requests.get\<close>, which returns a
  response or raises, the parser behind \<open>BeautifulSoup(text, 'html.parser')\<close>, the
  directory of the program's file and \<open>repr\<close> on floats. The text of a response is the
  body as \<open>response.text\<close> decodes it. A request is taken to return; a fetch that hangs
  has no counterpart here.
\<close>

record response =
  status_code :: nat
  resp_text :: string

record env =
  requests_get :: "string \<Rightarrow> error + response"
  BeautifulSoup :: "string \<Rightarrow> tag"
  current_dir :: string
  float_repr :: "string \<Rightarrow> string"

text \<open>\<open>response.raise_for_status()\<close> raises \<open>HTTPError\<close> on a status from 400 to 599.\<close>

definition raise_for_status :: "response \<Rightarrow> error + unit" where
  "raise_for_status r =
     (if 400 \<le> status_code r \<and> status_code r < 600 then Inl HTTPError else Inr ())"

text \<open>Sequencing of statements that may raise: the first exception ends the function.\<close>

definition and_then :: "error + 'a \<Rightarrow> ('a \<Rightarrow> error + 'b) \<Rightarrow> error + 'b" where
  "and_then r f = (case r of Inl e \<Rightarrow> Inl e | Inr x \<Rightarrow> f x)"

definition default_data :: dict where
  "default_data =
     [(''title'', PyStr []), (''price'', PyInt 0), (''rating'', PyInt 0),
      (''available'', PyInt 0), (''description'', PyStr []), (''additional_info'', PyDict [])]"

text \<open>
  \<open>get_book_data(book_url)\<close>. Nothing in the function catches an exception: one raised by
  \<open>requests.get\<close>, by \<open>raise_for_status\<close> or by an extraction leaves the function.
\<close>

definition get_book_data :: "env \<Rightarrow> string \<Rightarrow> error + dict" where
  "get_book_data env book_url =
     and_then (requests_get env book_url) (\<lambda>response.
     and_then (raise_for_status response) (\<lambda>_.
       let soup = BeautifulSoup env (resp_text response)
       in case get_tag soup ''article'' (Str ''product_page'') of
            None \<Rightarrow> Inr default_data
          | Some data_root \<Rightarrow>
              (case get_tag data_root ''div'' (Pattern main_data_pattern) of
                 None \<Rightarrow> Inr default_data
               | Some main_data \<Rightarrow>
                   let title_elem = get_tag main_data ''h1'' (Str []);
                       description_elem = get_tag data_root ''p'' (Str []);
                       rating_elem = get_tag main_data ''p'' (Pattern rating_pattern);
                       price_elem = get_tag main_data ''p'' (Str ''price_color'');
                       available_elem = get_tag main_data ''p'' (Str ''instock availability'')
                   in and_then (set_dict_value default_data ''title'' title_elem ''text'') (\<lambda>data.
                      and_then (set_dict_value data ''description'' description_elem ''text'') (\<lambda>data.
                      and_then (set_dict_value data ''price'' price_elem ''number'') (\<lambda>data.
                      and_then (set_dict_value data ''available'' available_elem ''number'') (\<lambda>data.
                      and_then (set_dict_value data ''rating'' rating_elem ''rating'') (\<lambda>data.
                        case get_tag data_root ''table'' (Str ''table table-striped'') of
                          None \<Rightarrow> Inr data
                        | Some table \<Rightarrow>
                            and_then (get_rows table) (\<lambda>rows.
                              Inr (AList.update ''additional_info'' (PyDict rows) data))))))))))"

section \<open>The catalogue\<close>

definition root_url :: string where
  "root_url = ''https://books.toscrape.com/catalogue/''"

text \<open>\<open>str(n)\<close> for an integer.\<close>

fun str_nat :: "nat \<Rightarrow> string" where
  "str_nat n = (if n < 10 then [''0123456789'' ! n]
                else str_nat (n div 10) @ [''0123456789'' ! (n mod 10)])"

definition str_int :: "int \<Rightarrow> string" where
  "str_int i = (if i < 0 then ''-'' @ str_nat (nat (- i)) else str_nat (nat i))"

definition get_page_soup :: "env \<Rightarrow> int \<Rightarrow> error + tag" where
  "get_page_soup env page_number =
     and_then (requests_get env (root_url @ ''page-'' @ str_int page_number @ ''.html''))
       (\<lambda>response.
     and_then (raise_for_status response) (\<lambda>_.
       Inr (BeautifulSoup env (resp_text response))))"

text \<open>\<open>_get_pages_count()\<close>; the bare \<open>except\<close> catches whatever the fetch raises.\<close>

definition get_pages_count :: "env \<Rightarrow> int" where
  "get_pages_count env =
     (case get_page_soup env 1 of
        Inl e \<Rightarrow> 0
      | Inr soup \<Rightarrow>
          (case get_tag soup ''li'' (Str ''current'') of
             None \<Rightarrow> 0
           | Some counter_elem \<Rightarrow>
               (case of_pattern (get_text counter_elem) of
                  None \<Rightarrow> 0
                | Some digits \<Rightarrow> py_int digits)))"

text \<open>
  \<open>_parse_page(page_number, books_data, pbar)\<close> is the body of one thread. Its result
  here is what the thread appends to the shared list, in the order it appends, and the
  exception that ended the thread, if one did: \<open>link['href']\<close> raises \<open>KeyError\<close> on an
  anchor without the attribute, and nothing catches what \<open>get_book_data\<close> raises. The
  progress bar is left out.
\<close>

fun parse_page_loop :: "env \<Rightarrow> tag list \<Rightarrow> dict list \<Rightarrow> dict list \<times> error option" where
  "parse_page_loop env [] appended = (appended, None)"
| "parse_page_loop env (heading # rest) appended =
     (case get_tag heading ''a'' (Str []) of
        None \<Rightarrow> parse_page_loop env rest appended
      | Some link \<Rightarrow>
          (case attr_href link of
             None \<Rightarrow> (appended, Some KeyError)
           | Some href \<Rightarrow>
               if href = [] then parse_page_loop env rest appended
               else (case get_book_data env (root_url @ href) of
                       Inl e \<Rightarrow> (appended, Some e)
                     | Inr data \<Rightarrow> parse_page_loop env rest (appended @ [data]))))"

definition parse_page :: "env \<Rightarrow> int \<Rightarrow> dict list \<times> error option" where
  "parse_page env page_number =
     (case get_page_soup env page_number of
        Inl e \<Rightarrow> ([], None)
      | Inr soup \<Rightarrow>
          (case get_tag soup ''ol'' (Str ''row'') of
             None \<Rightarrow> ([], None)
           | Some books_container \<Rightarrow> parse_page_loop env (find_all books_container ''h3'') []))"

section \<open>The crawl\<close>

definition threads_number :: int where
  "threads_number = 25"

text \<open>\<open>range(start, stop, step)\<close> for a positive step.\<close>

function py_range :: "int \<Rightarrow> int \<Rightarrow> int \<Rightarrow> int list" where
  "py_range start stop step =
     (if start < stop \<and> 0 < step then start # py_range (start + step) stop step else [])"
  by pat_completeness auto
termination
  by (relation "measure (\<lambda>(start, stop, step). nat (stop - start))") auto

text \<open>The pages of the batch that starts at \<open>page_number\<close>: the inner loop with its \<open>break\<close>.\<close>

definition batch_pages :: "int \<Rightarrow> int \<Rightarrow> int list" where
  "batch_pages pages_count page_number =
     takeWhile (\<lambda>p. \<not> p > pages_count)
       (map (\<lambda>shift. page_number + shift) (py_range 0 threads_number 1))"

text \<open>
  The threads of a batch run concurrently and each appends its records to the shared
  list one at a time, so the list grows by some interleaving of what the threads
  append. Every thread of a batch is joined before the next batch starts.
\<close>

fun interleavings :: "'a list list \<Rightarrow> 'a list set" where
  "interleavings [] = {[]}"
| "interleavings (xs # xss) = (\<Union>ys \<in> interleavings xss. shuffles xs ys)"

fun run_batches :: "env \<Rightarrow> int list list \<Rightarrow> dict list \<Rightarrow> dict list set" where
  "run_batches env [] books_data = {books_data}"
| "run_batches env (batch # rest) books_data =
     (\<Union>appended \<in> interleavings (map (\<lambda>p. fst (parse_page env p)) batch).
        run_batches env rest (books_data @ appended))"

section \<open>Persistence\<close>

text \<open>
  \<open>json.dumps(books_data, indent=4)\<close>: an empty list or dictionary is written as \<open>[]\<close> or
  \<open>{}\<close>; otherwise every item stands on a line of its own, four spaces deeper than the
  brackets around it. Strings are escaped to ASCII.
\<close>

definition hex_digit :: "nat \<Rightarrow> char" where
  "hex_digit n = ''0123456789abcdef'' ! n"

definition encode_char :: "char \<Rightarrow> string" where
  "encode_char c =
     (if c = CHR 0x22 then [CHR 0x5C, CHR 0x22]
      else if c = CHR 0x5C then [CHR 0x5C, CHR 0x5C]
      else if c = CHR 0x0A then [CHR 0x5C, CHR ''n'']
      else if c = CHR 0x0D then [CHR 0x5C, CHR ''r'']
      else if c = CHR 0x09 then [CHR 0x5C, CHR ''t'']
      else if c = CHR 0x08 then [CHR 0x5C, CHR ''b'']
      else if c = CHR 0x0C then [CHR 0x5C, CHR ''f'']
      else if (of_char c :: nat) < 32 \<or> 126 < (of_char c :: nat)
        then [CHR 0x5C, CHR ''u'', CHR ''0'', CHR ''0'',
              hex_digit ((of_char c :: nat) div 16), hex_digit ((of_char c :: nat) mod 16)]
      else [c])"

definition encode_string :: "string \<Rightarrow> string" where
  "encode_string s = [CHR 0x22] @ concat (map encode_char s) @ [CHR 0x22]"

definition newline_indent :: "nat \<Rightarrow> string" where
  "newline_indent level = CHR 0x0A # replicate (4 * level) CHR '' ''"

fun join_with :: "string \<Rightarrow> string list \<Rightarrow> string" where
  "join_with sep [] = []"
| "join_with sep [x] = x"
| "join_with sep (x # y # ys) = x @ sep @ join_with sep (y # ys)"

fun json_value :: "(string \<Rightarrow> string) \<Rightarrow> nat \<Rightarrow> pyval \<Rightarrow> string"
  and json_items :: "(string \<Rightarrow> string) \<Rightarrow> nat \<Rightarrow> (string \<times> pyval) list \<Rightarrow> string list" where
  "json_value fr level (PyStr s) = encode_string s"
| "json_value fr level (PyInt i) = str_int i"
| "json_value fr level (PyFloat s) = fr s"
| "json_value fr level (PyDict d) =
     (if d = [] then ''{}''
      else ''{'' @ newline_indent (level + 1)
           @ join_with ('','' @ newline_indent (level + 1)) (json_items fr (level + 1) d)
           @ newline_indent level @ ''}'')"
| "json_items fr level [] = []"
| "json_items fr level ((k, v) # rest) =
     (encode_string k @ '': '' @ json_value fr level v) # json_items fr level rest"

definition json_dumps :: "(string \<Rightarrow> string) \<Rightarrow> dict list \<Rightarrow> string" where
  "json_dumps fr books_data =
     (if books_data = [] then ''[]''
      else ''['' @ newline_indent 1
           @ join_with ('','' @ newline_indent 1) (map (\<lambda>d. json_value fr 1 (PyDict d)) books_data)
           @ newline_indent 0 @ '']'')"

text \<open>\<open>os.path.join(dir, file)\<close> for a relative \<open>file\<close>, as \<open>books_data.txt\<close> is.\<close>

definition path_join :: "string \<Rightarrow> string \<Rightarrow> string" where
  "path_join dir file = (if dir = [] \<or> last dir = CHR ''/'' then dir @ file else dir @ ''/'' @ file)"

text \<open>
  \<open>scrape_books(is_save)\<close>. The files are a store from paths to contents; opening a file
  with mode \<open>'w'\<close> and writing to it replaces the content at its path. A run returns the
  list and leaves the store; the set holds every outcome that some schedule of the
  threads produces.
\<close>

type_synonym files = "string \<rightharpoonup> string"

definition scrape_books :: "env \<Rightarrow> bool \<Rightarrow> files \<Rightarrow> (dict list \<times> files) set" where
  "scrape_books env is_save files =
     (let pages_count = get_pages_count env;
          batches = map (batch_pages pages_count) (py_range 1 (pages_count + 1) threads_number)
      in (\<lambda>books_data.
            (books_data,
             if is_save
             then files(path_join (current_dir env) ''books_data.txt''
                          \<mapsto> json_dumps (float_repr env) books_data)
             else files))
         ` run_batches env batches [])"

section \<open>Table rows, and example documents\<close>

text \<open>
  What one row of a table contributes to the dictionary of \<open>get_rows\<close>: the row needs a
  header cell and a data cell, as \<open>get_tag\<close> finds them.
\<close>

definition row_entry :: "tag \<Rightarrow> (string \<times> pyval) option" where
  "row_entry row =
     (case get_tag row ''th'' (Str []) of
        None \<Rightarrow> None
      | Some k \<Rightarrow>
          (case get_tag row ''td'' (Str []) of
             None \<Rightarrow> None
           | Some v \<Rightarrow> Some (get_text k, PyStr (strip (get_text v)))))"

fun row_entries :: "tag list \<Rightarrow> (string \<times> pyval) list" where
  "row_entries [] = []"
| "row_entries (row # rest) =
     (case row_entry row of None \<Rightarrow> row_entries rest | Some e \<Rightarrow> e # row_entries rest)"

definition th_cell :: "string \<Rightarrow> page_element" where
  "th_cell s = Element (Tag ''th'' None None [NavigableString s])"

definition td_cell :: "string \<Rightarrow> page_element" where
  "td_cell s = Element (Tag ''td'' None None [NavigableString s])"





text \<open>The recursive equations of these two functions are applied where they are named.\<close>

declare str_nat.simps [simp del] py_range.simps [simp del]

section \<open>What the parser builds, and the value of a field\<close>


text \<open>
  A text is fit for the numeric rule when it has no digit and no point, or when the first
  run of digits and points in it has at most one point and at least one digit.
\<close>

definition number_text_ok :: "string \<Rightarrow> bool" where
  "number_text_ok t =
     (case number_pattern t of
        None \<Rightarrow> True
      | Some m \<Rightarrow> length (filter (\<lambda>c. c = CHR ''.'') m) \<le> 1 \<and> (\<exists>c \<in> set m. isdigit c))"

text \<open>
  The outcome of an extraction as an optional value: \<open>None\<close> leaves the field as it is, and
  a value is assigned to it.
\<close>

definition assign :: "string \<Rightarrow> pyval option \<Rightarrow> dict \<Rightarrow> dict" where
  "assign key v data = (case v of None \<Rightarrow> data | Some x \<Rightarrow> AList.update key x data)"

definition text_value :: "tag option \<Rightarrow> pyval option" where
  "text_value element = map_option (\<lambda>el. PyStr (strip (get_text el))) element"

definition number_value :: "tag option \<Rightarrow> pyval option" where
  "number_value element =
     (case element of
        None \<Rightarrow> None
      | Some el \<Rightarrow>
          (case number_pattern (get_text el) of
             None \<Rightarrow> None
           | Some m \<Rightarrow> Some (if CHR ''.'' \<in> set m then PyFloat m else PyInt (py_int m))))"

definition rating_value :: "tag option \<Rightarrow> pyval option" where
  "rating_value element =
     (case element of
        None \<Rightarrow> None
      | Some el \<Rightarrow>
          (case attr_class el of
             Some (c0 # c1 # cs) \<Rightarrow>
               if lower c1 \<in> set stars_count then Some (PyInt (int (index stars_count (lower c1))))
               else None
           | _ \<Rightarrow> None))"

text \<open>
  The record of a page whose root container and main container were found, written as
  the assignments the function makes to the defaults, in the order it makes them.
\<close>

definition parsed_record :: "tag \<Rightarrow> tag \<Rightarrow> dict" where
  "parsed_record data_root main_data =
     assign ''additional_info''
       (map_option (\<lambda>table. PyDict (fold (\<lambda>(k, v). AList.update k v) (row_entries (find_all table ''tr'')) []))
          (get_tag data_root ''table'' (Str ''table table-striped'')))
    (assign ''rating'' (rating_value (get_tag main_data ''p'' (Pattern rating_pattern)))
    (assign ''available'' (number_value (get_tag main_data ''p'' (Str ''instock availability'')))
    (assign ''price'' (number_value (get_tag main_data ''p'' (Str ''price_color'')))
    (assign ''description'' (text_value (get_tag data_root ''p'' (Str [])))
    (assign ''title'' (text_value (get_tag main_data ''h1'' (Str []))) default_data)))))"

definition numbers_ok :: "tag \<Rightarrow> bool" where
  "numbers_ok main_data =
     ((case get_tag main_data ''p'' (Str ''price_color'') of
         None \<Rightarrow> True | Some el \<Rightarrow> number_text_ok (get_text el)) \<and>
      (case get_tag main_data ''p'' (Str ''instock availability'') of
         None \<Rightarrow> True | Some el \<Rightarrow> number_text_ok (get_text el)))"




text \<open>
  The first paragraph element under the root container, whatever its class, and its
  trimmed text: the description as the specification words it.
\<close>

definition first_paragraph :: "tag \<Rightarrow> tag option" where
  "first_paragraph data_root = List.find (\<lambda>t. name t = ''p'') (elements (descendants data_root))"

definition claimed_description :: "tag \<Rightarrow> string" where
  "claimed_description data_root =
     (case first_paragraph data_root of None \<Rightarrow> [] | Some el \<Rightarrow> strip (get_text el))"

text \<open>An item page of the shop, the record it holds, and a catalogue page that lists items.\<close>

definition book_main :: tag where
  "book_main = Tag ''div'' (Some [''col-sm-6'', ''product_main'']) None
     [Element (Tag ''h1'' None None [NavigableString ''A Light in the Attic'']),
      Element (Tag ''p'' (Some [''price_color'']) None [NavigableString (CHR 0xA3 # ''51.77'')]),
      Element (Tag ''p'' (Some [''instock'', ''availability'']) None
        [NavigableString '' In stock (22 available) '']),
      Element (Tag ''p'' (Some [''star-rating'', ''Three'']) None [])]"

definition book_root :: tag where
  "book_root = Tag ''article'' (Some [''product_page'']) None
     [Element book_main,
      Element (Tag ''p'' None None [NavigableString '' It is hard to imagine. '']),
      Element (Tag ''table'' (Some [''table'', ''table-striped'']) None
        [Element (Tag ''tr'' None None [th_cell ''UPC'', td_cell ''a897fe39b1053632''])])]"

definition book_doc :: tag where
  "book_doc = Tag ''[document]'' None None [Element book_root]"

definition book_record :: dict where
  "book_record =
     [(''title'', PyStr ''A Light in the Attic''), (''price'', PyFloat ''51.77''),
      (''rating'', PyInt 3), (''available'', PyInt 22),
      (''description'', PyStr ''It is hard to imagine.''),
      (''additional_info'', PyDict [(''UPC'', PyStr ''a897fe39b1053632'')])]"

definition listing_doc :: "string list \<Rightarrow> tag" where
  "listing_doc hrefs = Tag ''[document]'' None None
     [Element (Tag ''li'' (Some [''current'']) None [NavigableString '' Page 1 of 1 '']),
      Element (Tag ''ol'' (Some [''row'']) None
        (map (\<lambda>href. Element (Tag ''li'' None None
                [Element (Tag ''h3'' None None
                   [Element (Tag ''a'' None (Some href) [NavigableString ''book''])])])) hrefs))]"

text \<open>
  A shop with one catalogue page: item \<open>a\<close> is served, item \<open>b\<close> answers with status 404, and
  nothing else can be reached.
\<close>

definition shop_env :: "string list \<Rightarrow> env" where
  "shop_env hrefs =
     \<lparr> requests_get = (\<lambda>url.
          if url = ''https://books.toscrape.com/catalogue/page-1.html''
            then Inr \<lparr> status_code = 200, resp_text = ''catalogue'' \<rparr>
          else if url = ''https://books.toscrape.com/catalogue/a/index.html''
            then Inr \<lparr> status_code = 200, resp_text = ''book'' \<rparr>
          else if url = ''https://books.toscrape.com/catalogue/b/index.html''
            then Inr \<lparr> status_code = 404, resp_text = ''not found'' \<rparr>
          else Inl ConnectionError),
       BeautifulSoup = (\<lambda>text. if text = ''catalogue'' then listing_doc hrefs else book_doc),
       current_dir = ''/app'',
       float_repr = (\<lambda>s. s) \<rparr>"

text \<open>A shop that cannot be reached at all.\<close>

definition offline_env :: env where
  "offline_env = \<lparr> requests_get = (\<lambda>url. Inl ConnectionError),
                    BeautifulSoup = (\<lambda>text. book_doc),
                    current_dir = ''/app'',
                    float_repr = (\<lambda>s. s) \<rparr>"

section \<open>The frame of the field extractor\<close>

lemma map_of_update_other: "k \<noteq> key \<Longrightarrow> map_of (AList.update key v al) k = map_of al k"
  by (simp add: update_conv')

lemma set_dict_value_cases:
  "set_dict_value data key element data_type = Inr data' \<Longrightarrow>
     data' = data \<or> (\<exists>v. data' = AList.update key v data)"
  unfolding set_dict_value_def
  by (auto simp: Let_def split: option.splits if_splits sum.splits)

text \<open>
  Claim C9. A call of \<open>_set_dict_value(data, key, element, data_type)\<close> that returns leaves
  the dictionary as it was or assigns to \<open>data[key]\<close> alone: every other key keeps its
  value and no key is removed. With \<open>element\<close> absent, or \<open>data_type\<close> none of \<open>text\<close>,
  \<open>number\<close>, \<open>rating\<close>, the dictionary is returned unchanged. (A call that raises does so
  before it assigns.)
\<close>

theorem set_dict_value_frame:
  "(set_dict_value data key element data_type = Inr data' \<longrightarrow>
      (\<forall>k. k \<noteq> key \<longrightarrow> map_of data' k = map_of data k) \<and>
      fst ` set data \<subseteq> fst ` set data' \<and>
      (data' = data \<or> (\<exists>v. data' = AList.update key v data))) \<and>
   (element = None \<or> data_type \<notin> set [''text'', ''number'', ''rating'']
      \<longrightarrow> set_dict_value data key element data_type = Inr data)"
proof (intro conjI impI)
  assume r: "set_dict_value data key element data_type = Inr data'"
  from set_dict_value_cases [OF r]
  show c: "data' = data \<or> (\<exists>v. data' = AList.update key v data)" .
  from c show "\<forall>k. k \<noteq> key \<longrightarrow> map_of data' k = map_of data k"
    by (auto simp: map_of_update_other)
  from c show "fst ` set data \<subseteq> fst ` set data'"
    by (elim disjE exE) (simp_all add: dom_update subset_insertI)
next
  assume "element = None \<or> data_type \<notin> set [''text'', ''number'', ''rating'']"
  then show "set_dict_value data key element data_type = Inr data"
    unfolding set_dict_value_def by (auto split: option.splits)
qed

theorem set_dict_value_frame_witness:
  "set_dict_value [(''a'', PyInt 1), (''b'', PyInt 2)] ''a''
      (Some (Tag ''p'' None None [NavigableString '' x ''])) ''text''
     = Inr [(''a'', PyStr ''x''), (''b'', PyInt 2)] \<and>
   map_of [(''a'', PyStr ''x''), (''b'', PyInt 2)] ''b''
     = map_of [(''a'', PyInt 1), (''b'', PyInt 2)] ''b'' \<and>
   set_dict_value [(''a'', PyInt 1), (''b'', PyInt 2)] ''a'' None ''text''
     = Inr [(''a'', PyInt 1), (''b'', PyInt 2)]"
  using set_dict_value_frame [of "[(''a'', PyInt 1), (''b'', PyInt 2)]" "''a''"
          "Some (Tag ''p'' None None [NavigableString '' x ''])" "''text''"
          "[(''a'', PyStr ''x''), (''b'', PyInt 2)]"]
        set_dict_value_frame [of "[(''a'', PyInt 1), (''b'', PyInt 2)]" "''a''" None "''text''"
          "[(''a'', PyInt 1), (''b'', PyInt 2)]"]
  by (simp add: set_dict_value_def strip_def isspace_def)

section \<open>The rating rule\<close>

lemma index_less: "x \<in> set xs \<Longrightarrow> index xs x < length xs"
  by (induction xs) auto

lemma nth_index: "x \<in> set xs \<Longrightarrow> xs ! index xs x = x"
  by (induction xs) auto

lemma set_dict_value_rating:
  "attr_class el = Some (c0 # c1 # cs) \<Longrightarrow>
   set_dict_value data key (Some el) ''rating'' =
     Inr (if lower c1 \<in> set stars_count
          then AList.update key (PyInt (int (index stars_count (lower c1)))) data else data)"
  by (simp add: set_dict_value_def Let_def)

text \<open>
  Claim C3. For a node whose class has a second token \<open>c1\<close>, the rating rule compares
  \<open>c1\<close> in lower case with the words \<open>zero\<close> to \<open>five\<close>. If it is one of them, the position
  \<open>i\<close> of that word, from 0 to 5, is assigned to the key. If it is any other value, the
  dictionary is returned as it was: in a record that starts from the defaults the
  \<open>rating\<close> field remains 0.
\<close>

theorem rating_extraction:
  assumes "attr_class element = Some (c0 # c1 # cs)"
  shows "(lower c1 \<in> set stars_count \<longrightarrow>
            (\<exists>i. i \<le> 5 \<and> stars_count ! i = lower c1 \<and>
                 set_dict_value data key (Some element) ''rating''
                   = Inr (AList.update key (PyInt (int i)) data))) \<and>
         (lower c1 \<notin> set stars_count \<longrightarrow>
            set_dict_value data key (Some element) ''rating'' = Inr data \<and>
            (\<exists>d. set_dict_value default_data ''rating'' (Some element) ''rating'' = Inr d \<and>
                 map_of d ''rating'' = Some (PyInt 0)))"
proof (intro conjI impI)
  assume m: "lower c1 \<in> set stars_count"
  let ?i = "index stars_count (lower c1)"
  from m have "?i < length stars_count" by (rule index_less)
  then have "?i \<le> 5" by (simp add: stars_count_def)
  moreover from m have "stars_count ! ?i = lower c1" by (rule nth_index)
  moreover from m have "set_dict_value data key (Some element) ''rating''
      = Inr (AList.update key (PyInt (int ?i)) data)"
    by (simp add: set_dict_value_rating [OF assms])
  ultimately show "\<exists>i. i \<le> 5 \<and> stars_count ! i = lower c1 \<and>
       set_dict_value data key (Some element) ''rating'' = Inr (AList.update key (PyInt (int i)) data)"
    by blast
next
  assume n: "lower c1 \<notin> set stars_count"
  then show "set_dict_value data key (Some element) ''rating'' = Inr data"
    by (simp add: set_dict_value_rating [OF assms])
  from n show "\<exists>d. set_dict_value default_data ''rating'' (Some element) ''rating'' = Inr d \<and>
                 map_of d ''rating'' = Some (PyInt 0)"
    by (simp add: set_dict_value_rating [OF assms] default_data_def)
qed

lemma lower_Three: "lower ''Three'' = ''three''"
  by (simp add: lower_def lower_char_def upper_letters_def lower_letters_def)

lemma lower_Six: "lower ''Six'' = ''six''"
  by (simp add: lower_def lower_char_def upper_letters_def lower_letters_def)

theorem rating_extraction_witness:
  "set_dict_value default_data ''rating''
      (Some (Tag ''p'' (Some [''star-rating'', ''Three'']) None [])) ''rating''
     = Inr (AList.update ''rating'' (PyInt 3) default_data) \<and>
   set_dict_value default_data ''rating''
      (Some (Tag ''p'' (Some [''star-rating'', ''Six'']) None [])) ''rating''
     = Inr default_data"
  using rating_extraction [of "Tag ''p'' (Some [''star-rating'', ''Three'']) None []"
          "''star-rating''" "''Three''" "[]" default_data "''rating''"]
        rating_extraction [of "Tag ''p'' (Some [''star-rating'', ''Six'']) None []"
          "''star-rating''" "''Six''" "[]" default_data "''rating''"]
  by (simp add: lower_Three lower_Six stars_count_def set_dict_value_def)

section \<open>The additional information table\<close>

lemma set_dict_value_text:
  "set_dict_value data key element ''text'' =
     Inr (case element of None \<Rightarrow> data | Some el \<Rightarrow> AList.update key (PyStr (strip (get_text el))) data)"
  by (simp add: set_dict_value_def split: option.splits)

lemma get_rows_loop_fold:
  "get_rows_loop trs rows = Inr (fold (\<lambda>(k, v). AList.update k v) (row_entries trs) rows)"
  by (induction trs arbitrary: rows)
     (simp_all add: row_entry_def set_dict_value_text Let_def split: option.splits)






lemma get_rows_eq:
  "get_rows parent = Inr (fold (\<lambda>(k, v). AList.update k v) (row_entries (find_all parent ''tr'')) [])"
  by (simp add: get_rows_def get_rows_loop_fold)








section \<open>The page count\<close>















section \<open>The item page parser: what it returns and what it raises\<close>











lemma number_pattern_Some:
  "number_pattern t = Some m \<Longrightarrow> m \<noteq> [] \<and> (\<forall>c \<in> set m. number_char c)"
proof -
  assume a: "number_pattern t = Some m"
  let ?rest = "dropWhile (\<lambda>c. \<not> number_char c) t"
  from a have r: "?rest \<noteq> []" and m: "m = takeWhile number_char ?rest"
    by (auto simp: number_pattern_def Let_def split: if_splits)
  from r have "number_char (hd ?rest)" using hd_dropWhile [of "\<lambda>c. \<not> number_char c" t] by simp
  with r have "m \<noteq> []" unfolding m by (cases ?rest) auto
  moreover have "\<forall>c \<in> set m. number_char c" unfolding m by (auto dest: set_takeWhileD)
  ultimately show ?thesis by blast
qed

lemma filter_point_pos: "CHR ''.'' \<in> set m \<Longrightarrow> 0 < length (filter (\<lambda>c. c = CHR ''.'') m)"
  by (induction m) auto

lemma no_point_digit:
  "m \<noteq> [] \<Longrightarrow> \<forall>c \<in> set m. number_char c \<Longrightarrow> CHR ''.'' \<notin> set m \<Longrightarrow>
     length (filter (\<lambda>c. c = CHR ''.'') m) \<le> 1 \<and> (\<exists>c \<in> set m. isdigit c)"
proof -
  assume a: "m \<noteq> []" "\<forall>c \<in> set m. number_char c" "CHR ''.'' \<notin> set m"
  then have "filter (\<lambda>c. c = CHR ''.'') m = []" by (auto simp: filter_empty_conv)
  moreover from a obtain c where "c \<in> set m" by (cases m) auto
  with a have "c \<in> set m \<and> isdigit c" by (auto simp: number_char_def)
  ultimately show ?thesis by auto
qed

lemma set_dict_value_number:
  "set_dict_value data key element ''number'' =
     (if \<forall>el. element = Some el \<longrightarrow> number_text_ok (get_text el)
      then Inr (assign key (number_value element) data) else Inl ValueError)"
proof (cases element)
  case None
  then show ?thesis by (simp add: set_dict_value_def assign_def number_value_def)
next
  case (Some el)
  show ?thesis
  proof (cases "number_pattern (get_text el)")
    case None
    with Some show ?thesis
      by (simp add: set_dict_value_def assign_def number_value_def number_text_ok_def)
  next
    case m: (Some m)
    from number_pattern_Some [OF m] have ne: "m \<noteq> []" and nc: "\<forall>c \<in> set m. number_char c"
      by blast+
    show ?thesis
    proof (cases "CHR ''.'' \<in> set m")
      case True
      from filter_point_pos [OF True]
      have "length (filter (\<lambda>c. c = CHR ''.'') m) \<le> 1 \<longleftrightarrow> length (filter (\<lambda>c. c = CHR ''.'') m) = 1"
        by linarith
      with Some m True show ?thesis
        by (simp add: set_dict_value_def assign_def number_value_def number_text_ok_def py_float_def)
    next
      case False
      from no_point_digit [OF ne nc False] Some m False show ?thesis
        by (simp add: set_dict_value_def assign_def number_value_def number_text_ok_def)
    qed
  qed
qed

lemma set_dict_value_text_assign:
  "set_dict_value data key element ''text'' = Inr (assign key (text_value element) data)"
  by (cases element) (simp_all add: set_dict_value_def assign_def text_value_def)


lemma map_of_assign:
  "map_of (assign key v data) k =
     (if k = key then (case v of None \<Rightarrow> map_of data key | Some x \<Rightarrow> Some x) else map_of data k)"
  by (cases v) (simp_all add: assign_def update_conv')

lemma set_dict_value_number_case:
  "set_dict_value data key element ''number'' =
     (if (case element of None \<Rightarrow> True | Some el \<Rightarrow> number_text_ok (get_text el))
      then Inr (assign key (number_value element) data) else Inl ValueError)"
  by (cases element) (simp_all add: set_dict_value_number)

lemma set_dict_value_rating_full:
  "set_dict_value data key element ''rating'' =
     (case element of
        None \<Rightarrow> Inr (assign key (rating_value element) data)
      | Some el \<Rightarrow>
          (case attr_class el of
             None \<Rightarrow> Inl KeyError
           | Some cls \<Rightarrow> if length cls < 2 then Inl IndexError
                         else Inr (assign key (rating_value element) data)))"
proof (cases element)
  case None
  then show ?thesis by (simp add: set_dict_value_def assign_def rating_value_def)
next
  case (Some el)
  show ?thesis
  proof (cases "attr_class el")
    case None
    with Some show ?thesis by (simp add: set_dict_value_def)
  next
    case c: (Some cls)
    show ?thesis
    proof (cases "length cls < 2")
      case True
      with Some c show ?thesis by (simp add: set_dict_value_def)
    next
      case False
      then obtain c0 c1 cs where "cls = c0 # c1 # cs"
        by (cases cls rule: join_space.cases) auto
      with Some c show ?thesis
        by (simp add: set_dict_value_def assign_def rating_value_def Let_def)
    qed
  qed
qed

lemma get_book_data_parsed:
  assumes "requests_get env url = Inr r"
    and "\<not> (400 \<le> status_code r \<and> status_code r < 600)"
    and "get_tag (BeautifulSoup env (resp_text r)) ''article'' (Str ''product_page'') = Some data_root"
    and "get_tag data_root ''div'' (Pattern main_data_pattern) = Some main_data"
  shows "get_book_data env url =
     (if \<not> numbers_ok main_data then Inl ValueError
      else case get_tag main_data ''p'' (Pattern rating_pattern) of
             None \<Rightarrow> Inr (parsed_record data_root main_data)
           | Some el \<Rightarrow>
               (case attr_class el of
                  None \<Rightarrow> Inl KeyError
                | Some cls \<Rightarrow> if length cls < 2 then Inl IndexError
                              else Inr (parsed_record data_root main_data)))"
  unfolding get_book_data_def
  using assms
  by (simp add: and_then_def raise_for_status_def Let_def set_dict_value_text_assign
        set_dict_value_number_case set_dict_value_rating_full get_rows_eq parsed_record_def numbers_ok_def
        assign_def [of "''additional_info''"]
      split: option.splits)




lemma parsed_record_description:
  "map_of (parsed_record data_root main_data) ''description'' =
     Some (PyStr (case get_tag data_root ''p'' (Str []) of None \<Rightarrow> [] | Some el \<Rightarrow> strip (get_text el)))"
  by (simp add: parsed_record_def map_of_assign default_data_def text_value_def split: option.splits)











lemma book_root_found: "get_tag book_doc ''article'' (Str ''product_page'') = Some book_root"
  by (simp add: book_doc_def book_root_def get_tag_def find_tag_def)

lemma book_main_found: "get_tag book_root ''div'' (Pattern main_data_pattern) = Some book_main"
  by (simp add: book_root_def book_main_def get_tag_def find_tag_def main_data_pattern_def)

lemma book_a: "get_book_data (shop_env hrefs) ''https://books.toscrape.com/catalogue/a/index.html'' = Inr book_record"
  unfolding get_book_data_def
  by (simp add: shop_env_def and_then_def raise_for_status_def book_root_found book_main_found)
     (simp add: book_root_def book_main_def get_tag_def find_tag_def rating_pattern_def
        set_dict_value_def strip_def isspace_def number_pattern_def number_char_def isdigit_def
        py_float_def py_int_def lower_Three stars_count_def default_data_def
        get_rows_def find_all_def th_cell_def td_cell_def book_record_def and_then_def)

lemma get_book_data_Inr_parsed:
  assumes "get_book_data env url = Inr d"
    and "requests_get env url = Inr r"
    and "get_tag (BeautifulSoup env (resp_text r)) ''article'' (Str ''product_page'') = Some data_root"
    and "get_tag data_root ''div'' (Pattern main_data_pattern) = Some main_data"
  shows "d = parsed_record data_root main_data"
proof -
  have ok: "\<not> (400 \<le> status_code r \<and> status_code r < 600)"
  proof
    assume "400 \<le> status_code r \<and> status_code r < 600"
    with assms(2) have "get_book_data env url = Inl HTTPError"
      by (simp add: get_book_data_def and_then_def raise_for_status_def)
    with assms(1) show False by simp
  qed
  from assms(1) show ?thesis
    unfolding get_book_data_parsed [OF assms(2) ok assms(3) assms(4)]
    by (simp split: if_splits option.splits)
qed











section \<open>The description\<close>

text \<open>
  Claim C7, as amended. In a record parsed from a page with a root container and a main
  container, \<open>description\<close> is the trimmed text of the first paragraph element under the
  root container that has no \<open>class\<close> attribute, and the empty string when there is none:
  \<open>get_tag\<close> without a class searches with \<open>class_=None\<close>.
\<close>

theorem description_field:
  assumes "get_book_data env url = Inr d"
    and "requests_get env url = Inr r"
    and "get_tag (BeautifulSoup env (resp_text r)) ''article'' (Str ''product_page'') = Some data_root"
    and "get_tag data_root ''div'' (Pattern main_data_pattern) = Some main_data"
  shows "map_of d ''description'' =
           Some (PyStr (case find_tag data_root ''p'' None of
                          None \<Rightarrow> [] | Some el \<Rightarrow> strip (get_text el))) \<and>
         (\<forall>el. find_tag data_root ''p'' None = Some el \<longleftrightarrow>
            (\<exists>i < length (elements (descendants data_root)).
               elements (descendants data_root) ! i = el \<and> name el = ''p'' \<and> attr_class el = None \<and>
               (\<forall>j < i. \<not> (name (elements (descendants data_root) ! j) = ''p'' \<and>
                            attr_class (elements (descendants data_root) ! j) = None))))"
proof
  from get_book_data_Inr_parsed [OF assms] have "d = parsed_record data_root main_data" .
  then show "map_of d ''description'' =
           Some (PyStr (case find_tag data_root ''p'' None of
                          None \<Rightarrow> [] | Some el \<Rightarrow> strip (get_text el)))"
    by (simp add: parsed_record_description get_tag_def)
next
  show "\<forall>el. find_tag data_root ''p'' None = Some el \<longleftrightarrow>
            (\<exists>i < length (elements (descendants data_root)).
               elements (descendants data_root) ! i = el \<and> name el = ''p'' \<and> attr_class el = None \<and>
               (\<forall>j < i. \<not> (name (elements (descendants data_root) ! j) = ''p'' \<and>
                            attr_class (elements (descendants data_root) ! j) = None)))"
    unfolding find_tag_def find_Some_iff by auto
qed

lemma book_description_elem:
  "find_tag book_root ''p'' None = Some (Tag ''p'' None None [NavigableString '' It is hard to imagine. ''])"
  by (simp add: find_tag_def book_root_def book_main_def)

lemma shop_env_book:
  "requests_get (shop_env hrefs) ''https://books.toscrape.com/catalogue/a/index.html''
     = Inr \<lparr> status_code = 200, resp_text = ''book'' \<rparr>"
  "BeautifulSoup (shop_env hrefs) ''book'' = book_doc"
  by (simp_all add: shop_env_def)

theorem description_field_witness:
  "get_book_data (shop_env []) ''https://books.toscrape.com/catalogue/a/index.html'' = Inr book_record \<and>
   requests_get (shop_env []) ''https://books.toscrape.com/catalogue/a/index.html''
     = Inr \<lparr> status_code = 200, resp_text = ''book'' \<rparr> \<and>
   get_tag (BeautifulSoup (shop_env []) ''book'') ''article'' (Str ''product_page'') = Some book_root \<and>
   get_tag book_root ''div'' (Pattern main_data_pattern) = Some book_main \<and>
   find_tag book_root ''p'' None
     = Some (Tag ''p'' None None [NavigableString '' It is hard to imagine. '']) \<and>
   map_of book_record ''description'' = Some (PyStr ''It is hard to imagine.'')"
proof -
  have root: "get_tag (BeautifulSoup (shop_env [])
        (resp_text \<lparr> status_code = 200, resp_text = ''book'' \<rparr>)) ''article'' (Str ''product_page'')
      = Some book_root"
    by (simp add: shop_env_book book_root_found)
  from description_field [OF book_a shop_env_book(1) root book_main_found]
  have "map_of book_record ''description'' =
           Some (PyStr (case find_tag book_root ''p'' None of
                          None \<Rightarrow> [] | Some el \<Rightarrow> strip (get_text el)))"
    by blast
  then have "map_of book_record ''description'' = Some (PyStr ''It is hard to imagine.'')"
    by (simp add: book_description_elem strip_def isspace_def)
  then show ?thesis
    by (simp add: book_a shop_env_book book_root_found book_main_found book_description_elem)
qed

text \<open>
  The claim as stated fails: on the item page of the shop the first paragraph under the
  root container is the price, and the description is the text of the paragraph after it.
\<close>

theorem description_counterexample:
  "get_book_data (shop_env []) ''https://books.toscrape.com/catalogue/a/index.html'' = Inr book_record \<and>
   get_tag (BeautifulSoup (shop_env []) ''book'') ''article'' (Str ''product_page'') = Some book_root \<and>
   first_paragraph book_root
     = Some (Tag ''p'' (Some [''price_color'']) None [NavigableString (CHR 0xA3 # ''51.77'')]) \<and>
   claimed_description book_root = CHR 0xA3 # ''51.77'' \<and>
   map_of book_record ''description'' = Some (PyStr ''It is hard to imagine.'') \<and>
   map_of book_record ''description'' \<noteq> Some (PyStr (claimed_description book_root))"
proof -
  have f: "first_paragraph book_root
     = Some (Tag ''p'' (Some [''price_color'']) None [NavigableString (CHR 0xA3 # ''51.77'')])"
    by (simp add: first_paragraph_def book_root_def book_main_def)
  have c: "claimed_description book_root = CHR 0xA3 # ''51.77''"
    by (simp add: claimed_description_def f strip_def isspace_def)
  have d: "map_of book_record ''description'' = Some (PyStr ''It is hard to imagine.'')"
    by (simp add: book_record_def)
  show ?thesis
    by (simp add: book_a shop_env_book book_root_found f c d)
qed

section \<open>The numeric rule\<close>

text \<open>
  Claim C2. The pattern of the numeric rule matches any run of digits and points. On a
  text whose first such run is a lone point, or holds two points, \<open>float\<close> raises
  \<open>ValueError\<close>: the rule neither returns a number nor leaves the field absent.
\<close>

theorem number_rule_raises:
  "set_dict_value default_data ''available''
     (Some (Tag ''p'' (Some [''instock'', ''availability'']) None [NavigableString ''Out of stock.'']))
     ''number'' = Inl ValueError \<and>
   set_dict_value default_data ''price''
     (Some (Tag ''p'' (Some [''price_color'']) None [NavigableString ''1.2.3'']))
     ''number'' = Inl ValueError"
  by (simp add: set_dict_value_def number_pattern_def number_char_def isdigit_def py_float_def)

section \<open>The crawl and its result\<close>












lemma scrape_books_member:
  "(books, files') \<in> scrape_books env is_save files \<longleftrightarrow>
     books \<in> run_batches env
        (map (batch_pages (get_pages_count env))
           (py_range 1 (get_pages_count env + 1) threads_number)) [] \<and>
     files' = (if is_save
               then files(path_join (current_dir env) ''books_data.txt''
                            \<mapsto> json_dumps (float_repr env) books)
               else files)"
  by (auto simp: scrape_books_def Let_def)












section \<open>Persistence of an empty result\<close>

text \<open>
  Claim C8. When \<open>scrape_books\<close> is run with \<open>is_save\<close> and the list it returns is empty, the
  file \<open>books_data.txt\<close> in the directory of the program holds exactly \<open>[]\<close> afterwards,
  whatever it held before, and no other file is changed. A page count of 0 is such a
  run.
\<close>

theorem persist_empty:
  "(\<forall>books files'. (books, files') \<in> scrape_books env True files \<and> books = [] \<longrightarrow>
      files' = files(path_join (current_dir env) ''books_data.txt'' \<mapsto> ''[]'')) \<and>
   (\<forall>books files' path. (books, files') \<in> scrape_books env True files \<and>
      path \<noteq> path_join (current_dir env) ''books_data.txt'' \<longrightarrow> files' path = files path) \<and>
   (get_pages_count env = 0 \<longrightarrow>
      scrape_books env True files
        = {([], files(path_join (current_dir env) ''books_data.txt'' \<mapsto> ''[]''))})"
proof (intro conjI allI impI)
  fix books files'
  assume "(books, files') \<in> scrape_books env True files \<and> books = []"
  then show "files' = files(path_join (current_dir env) ''books_data.txt'' \<mapsto> ''[]'')"
    by (simp add: scrape_books_member json_dumps_def)
next
  fix books files' path
  assume "(books, files') \<in> scrape_books env True files \<and>
      path \<noteq> path_join (current_dir env) ''books_data.txt''"
  then show "files' path = files path"
    by (simp add: scrape_books_member)
next
  assume "get_pages_count env = 0"
  then show "scrape_books env True files
        = {([], files(path_join (current_dir env) ''books_data.txt'' \<mapsto> ''[]''))}"
    by (simp add: scrape_books_def py_range.simps [of 1 1] json_dumps_def)
qed

lemma offline_pages_count: "get_pages_count offline_env = 0"
  by (simp add: get_pages_count_def get_page_soup_def offline_env_def and_then_def)

theorem persist_empty_witness:
  "get_pages_count offline_env = 0 \<and>
   path_join (current_dir offline_env) ''books_data.txt'' = ''/app/books_data.txt'' \<and>
   scrape_books offline_env True (Map.empty(''/app/books_data.txt'' \<mapsto> ''[{}]''))
     = {([], Map.empty(''/app/books_data.txt'' \<mapsto> ''[]''))}"
proof -
  have p: "path_join (current_dir offline_env) ''books_data.txt'' = ''/app/books_data.txt''"
    by (simp add: path_join_def offline_env_def)
  from persist_empty [of offline_env "Map.empty(''/app/books_data.txt'' \<mapsto> ''[{}]'')"]
    offline_pages_count
  have "scrape_books offline_env True (Map.empty(''/app/books_data.txt'' \<mapsto> ''[{}]''))
     = {([], (Map.empty(''/app/books_data.txt'' \<mapsto> ''[{}]''))
               (path_join (current_dir offline_env) ''books_data.txt'' \<mapsto> ''[]''))}"
    by blast
  then show ?thesis by (simp add: p offline_pages_count)
qed

end
